theory Spec2Isabelle
  imports Main
begin

section \<open>The application object of the datePickerTest example\<close>

text \<open>
  \<^verbatim>\<open>example/windows/datePickerTest/App.cpp\<close> holds one function, the constructor
  \<^verbatim>\<open>App::App()\<close>. Its body is straight-line code: a sequence of calls on the
  application object, two of them chosen by the preprocessor (\<^verbatim>\<open>#if BUNDLE\<close>,
  \<^verbatim>\<open>#if _DEBUG\<close>). The model keeps that shape: the body is the list of calls the
  preprocessor leaves, and running the constructor is running that list on the object.
\<close>

subsection \<open>Data\<close>

text \<open>
  The package providers the constructor handles: \<^verbatim>\<open>make<ReactPackageProvider>()\<close>
  (the project's own), \<^verbatim>\<open>winrt::DateTimePicker::ReactPackageProvider()\<close>, and
  whatever providers autolinking found at build time, told apart by name.
\<close>

datatype IReactPackageProvider =
    ReactPackageProvider
  | DateTimePicker_ReactPackageProvider
  | Autolinked_ReactPackageProvider string

text \<open>The object behind \<^verbatim>\<open>InstanceSettings()\<close>.\<close>

record ReactInstanceSettings =
  UseWebDebugger :: bool
  UseFastRefresh :: bool
  EnableDeveloperMenu :: bool

text \<open>
  The application object: the properties the constructor writes, the provider vector
  behind \<^verbatim>\<open>PackageProviders()\<close>, and whether the XAML content has been loaded.
  An \<^verbatim>\<open>hstring\<close> property is a string; the empty string is the property not set.
\<close>

record App =
  MainComponentName :: string
  JavaScriptBundleFile :: string
  JavaScriptMainModuleName :: string
  InstanceSettings :: ReactInstanceSettings
  PackageProviders :: "IReactPackageProvider list"
  contentLoaded :: bool

text \<open>The object as the base class leaves it, before the body of \<^verbatim>\<open>App::App()\<close> runs.\<close>

definition App_base :: App where
  "App_base =
     \<lparr> MainComponentName = '''',
       JavaScriptBundleFile = '''',
       JavaScriptMainModuleName = '''',
       InstanceSettings =
         \<lparr> UseWebDebugger = False, UseFastRefresh = False, EnableDeveloperMenu = False \<rparr>,
       PackageProviders = [],
       contentLoaded = False \<rparr>"

subsection \<open>The calls of the constructor body\<close>

text \<open>
  One constructor per kind of call in the body. A C++/WinRT property setter has the
  name of its property; the prefix \<open>Set_\<close> tells the call from the field.
\<close>

datatype call =
    Set_MainComponentName string
  | Set_JavaScriptBundleFile string
  | Set_JavaScriptMainModuleName string
  | Set_UseWebDebugger bool
  | Set_UseFastRefresh bool
  | Set_EnableDeveloperMenu bool
  | PackageProviders_Append IReactPackageProvider
  | REACT_REGISTER_NATIVE_MODULE_PACKAGES
  | InitializeComponent

text \<open>
  Modelled from the spec: the macro \<^verbatim>\<open>REACT_REGISTER_NATIVE_MODULE_PACKAGES\<close> is
  generated by autolinking; its definition is not in the sources at hand. The spec calls it ``a
  build-time-generated call that registers any discovered native module packages''.
  The providers discovered at build time are the parameter \<open>autolinked\<close>; registering
  them appends them to the provider vector, in order, and touches nothing else.
\<close>

definition register_native_module_packages ::
  "IReactPackageProvider list \<Rightarrow> App \<Rightarrow> App" where
  "register_native_module_packages autolinked a =
     a\<lparr>PackageProviders := PackageProviders a @ autolinked\<rparr>"

text \<open>
  Modelled from the spec: \<^verbatim>\<open>InitializeComponent\<close> is generated from the application's
  XAML markup; it is not in the sources at hand. The spec calls it ``the host framework's generic
  component-initialization routine'', opaque to this component. It loads the
  component's content and is modelled as recording that, leaving the configuration
  and the provider vector as they are.
\<close>

definition initialize_component :: "App \<Rightarrow> App" where
  "initialize_component a = a\<lparr>contentLoaded := True\<rparr>"

text \<open>
  The effect of one call. A setter writes its property;
  \<^verbatim>\<open>InstanceSettings().UseWebDebugger(v)\<close> writes through to the settings object;
  \<^verbatim>\<open>PackageProviders().Append(p)\<close> adds \<open>p\<close> at the end of the vector.
\<close>

fun exec :: "IReactPackageProvider list \<Rightarrow> call \<Rightarrow> App \<Rightarrow> App" where
  "exec autolinked (Set_MainComponentName v) a = a\<lparr>MainComponentName := v\<rparr>"
| "exec autolinked (Set_JavaScriptBundleFile v) a = a\<lparr>JavaScriptBundleFile := v\<rparr>"
| "exec autolinked (Set_JavaScriptMainModuleName v) a = a\<lparr>JavaScriptMainModuleName := v\<rparr>"
| "exec autolinked (Set_UseWebDebugger v) a =
     a\<lparr>InstanceSettings := (InstanceSettings a)\<lparr>UseWebDebugger := v\<rparr>\<rparr>"
| "exec autolinked (Set_UseFastRefresh v) a =
     a\<lparr>InstanceSettings := (InstanceSettings a)\<lparr>UseFastRefresh := v\<rparr>\<rparr>"
| "exec autolinked (Set_EnableDeveloperMenu v) a =
     a\<lparr>InstanceSettings := (InstanceSettings a)\<lparr>EnableDeveloperMenu := v\<rparr>\<rparr>"
| "exec autolinked (PackageProviders_Append p) a =
     a\<lparr>PackageProviders := PackageProviders a @ [p]\<rparr>"
| "exec autolinked REACT_REGISTER_NATIVE_MODULE_PACKAGES a =
     register_native_module_packages autolinked a"
| "exec autolinked InitializeComponent a = initialize_component a"

text \<open>Running a sequence of calls, first to last.\<close>

fun run :: "IReactPackageProvider list \<Rightarrow> call list \<Rightarrow> App \<Rightarrow> App" where
  "run autolinked [] a = a"
| "run autolinked (c # cs) a = run autolinked cs (exec autolinked c a)"

subsection \<open>The constructor\<close>

text \<open>
  The body of \<^verbatim>\<open>App::App()\<close> after preprocessing. \<open>BUNDLE\<close> and \<open>DEBUG\<close> say
  whether \<^verbatim>\<open>#if BUNDLE\<close> and \<^verbatim>\<open>#if _DEBUG\<close> take their first branch.
\<close>

definition App_body :: "bool \<Rightarrow> bool \<Rightarrow> call list" where
  "App_body BUNDLE DEBUG =
     [Set_MainComponentName ''example''] @
     (if BUNDLE then
        [Set_JavaScriptBundleFile ''index.windows'',
         Set_UseWebDebugger False,
         Set_UseFastRefresh False]
      else
        [Set_JavaScriptMainModuleName ''example/index'',
         Set_UseWebDebugger True,
         Set_UseFastRefresh True]) @
     (if DEBUG then [Set_EnableDeveloperMenu True] else [Set_EnableDeveloperMenu False]) @
     [PackageProviders_Append ReactPackageProvider,
      PackageProviders_Append DateTimePicker_ReactPackageProvider,
      REACT_REGISTER_NATIVE_MODULE_PACKAGES,
      InitializeComponent]"

definition App_ctor :: "IReactPackageProvider list \<Rightarrow> bool \<Rightarrow> bool \<Rightarrow> App \<Rightarrow> App" where
  "App_ctor autolinked BUNDLE DEBUG a = run autolinked (App_body BUNDLE DEBUG) a"

subsection \<open>Vocabulary of the properties\<close>

text \<open>The configuration fields, and the field a call writes (if any).\<close>

datatype field =
    F_MainComponentName
  | F_JavaScriptBundleFile
  | F_JavaScriptMainModuleName
  | F_UseWebDebugger
  | F_UseFastRefresh
  | F_EnableDeveloperMenu



fun writes :: "call \<Rightarrow> field option" where
  "writes (Set_MainComponentName v) = Some F_MainComponentName"
| "writes (Set_JavaScriptBundleFile v) = Some F_JavaScriptBundleFile"
| "writes (Set_JavaScriptMainModuleName v) = Some F_JavaScriptMainModuleName"
| "writes (Set_UseWebDebugger v) = Some F_UseWebDebugger"
| "writes (Set_UseFastRefresh v) = Some F_UseFastRefresh"
| "writes (Set_EnableDeveloperMenu v) = Some F_EnableDeveloperMenu"
| "writes (PackageProviders_Append p) = None"
| "writes REACT_REGISTER_NATIVE_MODULE_PACKAGES = None"
| "writes InitializeComponent = None"

definition is_config_write :: "call \<Rightarrow> bool" where
  "is_config_write c = (writes c \<noteq> None)"

fun is_append :: "call \<Rightarrow> bool" where
  "is_append (PackageProviders_Append p) = True"
| "is_append c = False"

text \<open>A call that selects the bundle source: the bundle file or the main module.\<close>

definition writes_source :: "call \<Rightarrow> bool" where
  "writes_source c =
     (writes c = Some F_JavaScriptBundleFile \<or> writes c = Some F_JavaScriptMainModuleName)"

text \<open>Exactly one of the two bundle sources is set.\<close>

definition one_source :: "App \<Rightarrow> bool" where
  "one_source a = ((JavaScriptBundleFile a \<noteq> '''') \<noteq> (JavaScriptMainModuleName a \<noteq> ''''))"

text \<open>
  The configuration the host framework reads: entry point, bundle file, main module,
  the three flags, and the providers in order.
\<close>

definition config_of ::
  "App \<Rightarrow> string \<times> string \<times> string \<times> bool \<times> bool \<times> bool \<times> IReactPackageProvider list" where
  "config_of a =
     (MainComponentName a, JavaScriptBundleFile a, JavaScriptMainModuleName a,
      UseWebDebugger (InstanceSettings a), UseFastRefresh (InstanceSettings a),
      EnableDeveloperMenu (InstanceSettings a), PackageProviders a)"

text \<open>
  The configuration as a function of the two build selectors alone: the table of the
  spec's build-time selectors, with the literals of \<^verbatim>\<open>App::App()\<close>.
\<close>

definition configuration_table ::
  "bool \<Rightarrow> bool \<Rightarrow>
     string \<times> string \<times> string \<times> bool \<times> bool \<times> bool \<times> IReactPackageProvider list" where
  "configuration_table BUNDLE DEBUG =
     (''example'',
      (if BUNDLE then ''index.windows'' else ''''),
      (if BUNDLE then '''' else ''example/index''),
      \<not> BUNDLE, \<not> BUNDLE, DEBUG,
      [ReactPackageProvider, DateTimePicker_ReactPackageProvider])"

section \<open>Properties\<close>

subsection \<open>Configuration selected by the build flags\<close>

text \<open>
  C1. Built with \<^verbatim>\<open>BUNDLE\<close> set, the constructor leaves the bundle file at the
  literal \<^verbatim>\<open>index.windows\<close>, the web debugger off and fast refresh off, whatever
  the object held before, whatever the debug flag, and whatever autolinking found.
\<close>

theorem bundle_build_settings:
  "JavaScriptBundleFile (App_ctor autolinked True DEBUG a) = ''index.windows''
   \<and> UseWebDebugger (InstanceSettings (App_ctor autolinked True DEBUG a)) = False
   \<and> UseFastRefresh (InstanceSettings (App_ctor autolinked True DEBUG a)) = False"
  by (simp add: App_ctor_def App_body_def register_native_module_packages_def
      initialize_component_def)

text \<open>
  C2. Built with \<^verbatim>\<open>BUNDLE\<close> unset, the constructor leaves the main module name at
  the literal \<^verbatim>\<open>example/index\<close>, the web debugger on and fast refresh on.
\<close>

theorem development_build_settings:
  "JavaScriptMainModuleName (App_ctor autolinked False DEBUG a) = ''example/index''
   \<and> UseWebDebugger (InstanceSettings (App_ctor autolinked False DEBUG a)) = True
   \<and> UseFastRefresh (InstanceSettings (App_ctor autolinked False DEBUG a)) = True"
  by (simp add: App_ctor_def App_body_def register_native_module_packages_def
      initialize_component_def)

text \<open>
  C3. Whatever the bundle flag, the developer menu is enabled after the constructor
  exactly when the build is a debug build.
\<close>

theorem developer_menu_iff_debug:
  "EnableDeveloperMenu (InstanceSettings (App_ctor autolinked BUNDLE DEBUG a)) = DEBUG"
  by (simp add: App_ctor_def App_body_def register_native_module_packages_def
      initialize_component_def)

subsection \<open>Running call sequences\<close>

lemma run_append: "run autolinked (xs @ ys) a = run autolinked ys (run autolinked xs a)"
  by (induction xs arbitrary: a) simp_all

lemma take_from_two: "2 \<le> n \<Longrightarrow> take n xs = take 2 xs @ take (n - 2) (drop 2 xs)"
proof -
  assume "2 \<le> n"
  then have "n = 2 + (n - 2)" by simp
  then have "take n xs = take (2 + (n - 2)) xs" by simp
  then show ?thesis by (simp only: take_add)
qed

lemma exec_keeps_sources:
  "\<not> writes_source c \<Longrightarrow>
     JavaScriptBundleFile (exec autolinked c a) = JavaScriptBundleFile a
     \<and> JavaScriptMainModuleName (exec autolinked c a) = JavaScriptMainModuleName a"
  by (cases c)
    (simp_all add: writes_source_def register_native_module_packages_def
      initialize_component_def)

lemma run_keeps_sources:
  "\<forall>c\<in>set cs. \<not> writes_source c \<Longrightarrow>
     JavaScriptBundleFile (run autolinked cs a) = JavaScriptBundleFile a
     \<and> JavaScriptMainModuleName (run autolinked cs a) = JavaScriptMainModuleName a"
proof (induction cs arbitrary: a)
  case Nil
  then show ?case by simp
next
  case (Cons c cs)
  from Cons.prems have "\<not> writes_source c" and rest: "\<forall>c\<in>set cs. \<not> writes_source c"
    by simp_all
  with exec_keeps_sources [of c autolinked a] Cons.IH [OF rest, of "exec autolinked c a"]
  show ?case by simp
qed

lemma App_body_tail_keeps_sources:
  "\<forall>c\<in>set (drop 2 (App_body BUNDLE DEBUG)). \<not> writes_source c"
  by (simp add: App_body_def writes_source_def)

lemma App_body_head_sources:
  "JavaScriptBundleFile a = '''' \<Longrightarrow> JavaScriptMainModuleName a = '''' \<Longrightarrow>
     JavaScriptBundleFile (run autolinked (take 2 (App_body BUNDLE DEBUG)) a) =
       (if BUNDLE then ''index.windows'' else '''')
     \<and> JavaScriptMainModuleName (run autolinked (take 2 (App_body BUNDLE DEBUG)) a) =
       (if BUNDLE then '''' else ''example/index'')"
  by (simp add: App_body_def)

lemma App_body_length: "length (App_body BUNDLE DEBUG) = 9"
  by (simp add: App_body_def)

subsection \<open>The provider vector\<close>

text \<open>
  What the generated registration step adds comes after the constructor's own two
  providers: on a freshly constructed object the vector the constructor returns is
  those two followed by the providers autolinking found.
\<close>

lemma providers_with_autolinked:
  "PackageProviders (App_ctor autolinked BUNDLE DEBUG App_base) =
     ReactPackageProvider # DateTimePicker_ReactPackageProvider # autolinked"
  by (simp add: App_ctor_def App_body_def App_base_def register_native_module_packages_def
      initialize_component_def)

text \<open>
  C4. Under every setting of the two build flags, the constructor makes exactly two
  provider appends, the project's own provider first and the date/time-picker
  provider second. On a freshly constructed object, when those calls have run (the
  state in which the generated registration step is entered, whatever that step will
  do) the provider vector is exactly these two entries in that order; and it is
  exactly these two entries in the object the constructor returns, the generated
  registration step having found no further package to register.
\<close>

theorem providers_after_ctor:
  "filter is_append (App_body BUNDLE DEBUG) =
     [PackageProviders_Append ReactPackageProvider,
      PackageProviders_Append DateTimePicker_ReactPackageProvider]
   \<and> PackageProviders (run autolinked (take 7 (App_body BUNDLE DEBUG)) App_base) =
     [ReactPackageProvider, DateTimePicker_ReactPackageProvider]
   \<and> PackageProviders (App_ctor [] BUNDLE DEBUG App_base) =
     [ReactPackageProvider, DateTimePicker_ReactPackageProvider]"
  by (simp add: App_ctor_def App_body_def App_base_def register_native_module_packages_def
      initialize_component_def)

subsection \<open>The bundle source\<close>

text \<open>
  C5. Start from an object with neither bundle source set. In every state from the
  bundle-selection call on (after the first \<open>n\<close> calls of the body, \<open>n\<close> at least 2),
  and so in the state the constructor returns, exactly one of bundle file and main
  module name is set: the bundle file when \<^verbatim>\<open>BUNDLE\<close> is set, the main module name
  otherwise.
\<close>

theorem exactly_one_bundle_source:
  assumes "JavaScriptBundleFile a = ''''"
    and "JavaScriptMainModuleName a = ''''"
    and "2 \<le> n"
  shows "one_source (run autolinked (take n (App_body BUNDLE DEBUG)) a)
     \<and> (JavaScriptBundleFile (run autolinked (take n (App_body BUNDLE DEBUG)) a) \<noteq> '''') = BUNDLE
     \<and> one_source (App_ctor autolinked BUNDLE DEBUG a)"
proof -
  let ?body = "App_body BUNDLE DEBUG"
  let ?mid = "run autolinked (take 2 ?body) a"
  have at: "one_source (run autolinked (take m ?body) a)
      \<and> (JavaScriptBundleFile (run autolinked (take m ?body) a) \<noteq> '''') = BUNDLE"
    if "2 \<le> m" for m
  proof -
    have split: "take m ?body = take 2 ?body @ take (m - 2) (drop 2 ?body)"
      using that by (rule take_from_two)
    have "\<forall>c\<in>set (take (m - 2) (drop 2 ?body)). \<not> writes_source c"
      using App_body_tail_keeps_sources [of BUNDLE DEBUG] by (meson in_set_takeD)
    then have keep:
      "JavaScriptBundleFile (run autolinked (take (m - 2) (drop 2 ?body)) ?mid) =
         JavaScriptBundleFile ?mid
       \<and> JavaScriptMainModuleName (run autolinked (take (m - 2) (drop 2 ?body)) ?mid) =
         JavaScriptMainModuleName ?mid"
      by (rule run_keeps_sources)
    have head:
      "JavaScriptBundleFile ?mid = (if BUNDLE then ''index.windows'' else '''')
       \<and> JavaScriptMainModuleName ?mid = (if BUNDLE then '''' else ''example/index'')"
      using assms(1,2) by (rule App_body_head_sources)
    show ?thesis
      unfolding one_source_def split run_append using keep head by simp
  qed
  have "take 9 ?body = ?body"
    by (simp add: App_body_length)
  with at [of 9] have "one_source (App_ctor autolinked BUNDLE DEBUG a)"
    by (simp add: App_ctor_def)
  with at [OF assms(3)] show ?thesis by simp
qed

theorem exactly_one_bundle_source_witness:
  "JavaScriptBundleFile App_base = '''' \<and> JavaScriptMainModuleName App_base = ''''
   \<and> (2::nat) \<le> 2
   \<and> one_source (run [] (take 2 (App_body True False)) App_base)
   \<and> one_source (App_ctor [] True False App_base)"
proof -
  have b: "JavaScriptBundleFile App_base = ''''" by (simp add: App_base_def)
  have m: "JavaScriptMainModuleName App_base = ''''" by (simp add: App_base_def)
  have n: "(2::nat) \<le> 2" by simp
  from exactly_one_bundle_source [OF b m n, of "[]" True False] b m n
  show ?thesis by simp
qed

subsection \<open>Debugger and fast refresh\<close>

text \<open>
  C10. In the object the constructor returns, the web-debugger flag and the
  fast-refresh flag are equal, under every setting of the two build flags: both are
  the negation of \<^verbatim>\<open>BUNDLE\<close>.
\<close>

theorem debugger_equals_fast_refresh:
  "UseWebDebugger (InstanceSettings (App_ctor autolinked BUNDLE DEBUG a)) =
     UseFastRefresh (InstanceSettings (App_ctor autolinked BUNDLE DEBUG a))
   \<and> UseWebDebugger (InstanceSettings (App_ctor autolinked BUNDLE DEBUG a)) = (\<not> BUNDLE)"
  by (simp add: App_ctor_def App_body_def register_native_module_packages_def
      initialize_component_def)

subsection \<open>Order of the calls\<close>

text \<open>
  C6. In the body of the constructor, under every setting of the build flags,
  \<^verbatim>\<open>InitializeComponent\<close> is called exactly once and it is the last call: the body is
  a prefix followed by that call, the prefix holds no \<^verbatim>\<open>InitializeComponent\<close> and
  consists of the five configuration writes, the two provider appends and the one
  generated registration step, so all of these come strictly before it and none comes
  after. The object the constructor returns is the one that call returns.
\<close>

theorem InitializeComponent_once_and_last:
  "count_list (App_body BUNDLE DEBUG) InitializeComponent = 1
   \<and> (\<exists>pre. App_body BUNDLE DEBUG = pre @ [InitializeComponent]
        \<and> InitializeComponent \<notin> set pre
        \<and> list_all (\<lambda>c. is_config_write c \<or> is_append c
                      \<or> c = REACT_REGISTER_NATIVE_MODULE_PACKAGES) pre
        \<and> length (filter is_config_write pre) = 5
        \<and> length (filter is_append pre) = 2
        \<and> count_list pre REACT_REGISTER_NATIVE_MODULE_PACKAGES = 1
        \<and> App_ctor autolinked BUNDLE DEBUG a =
            exec autolinked InitializeComponent (run autolinked pre a))"
proof
  show "count_list (App_body BUNDLE DEBUG) InitializeComponent = 1"
    by (simp add: App_body_def)
next
  let ?pre = "butlast (App_body BUNDLE DEBUG)"
  have body: "App_body BUNDLE DEBUG = ?pre @ [InitializeComponent]"
    by (simp add: App_body_def)
  have ctor: "App_ctor autolinked BUNDLE DEBUG a =
      exec autolinked InitializeComponent (run autolinked ?pre a)"
    unfolding App_ctor_def by (subst body) (simp only: run_append run.simps)
  have "InitializeComponent \<notin> set ?pre"
    by (simp add: App_body_def)
  moreover have "list_all (\<lambda>c. is_config_write c \<or> is_append c
      \<or> c = REACT_REGISTER_NATIVE_MODULE_PACKAGES) ?pre"
    by (simp add: App_body_def is_config_write_def)
  moreover have "length (filter is_config_write ?pre) = 5"
    by (simp add: App_body_def is_config_write_def)
  moreover have "length (filter is_append ?pre) = 2"
    by (simp add: App_body_def)
  moreover have "count_list ?pre REACT_REGISTER_NATIVE_MODULE_PACKAGES = 1"
    by (simp add: App_body_def)
  ultimately show "\<exists>pre. App_body BUNDLE DEBUG = pre @ [InitializeComponent]
        \<and> InitializeComponent \<notin> set pre
        \<and> list_all (\<lambda>c. is_config_write c \<or> is_append c
                      \<or> c = REACT_REGISTER_NATIVE_MODULE_PACKAGES) pre
        \<and> length (filter is_config_write pre) = 5
        \<and> length (filter is_append pre) = 2
        \<and> count_list pre REACT_REGISTER_NATIVE_MODULE_PACKAGES = 1
        \<and> App_ctor autolinked BUNDLE DEBUG a =
            exec autolinked InitializeComponent (run autolinked pre a)"
    using body ctor by blast
qed

theorem InitializeComponent_once_and_last_witness:
  "count_list (App_body True False) InitializeComponent = 1
   \<and> App_body True False =
      [Set_MainComponentName ''example'',
       Set_JavaScriptBundleFile ''index.windows'',
       Set_UseWebDebugger False,
       Set_UseFastRefresh False,
       Set_EnableDeveloperMenu False,
       PackageProviders_Append ReactPackageProvider,
       PackageProviders_Append DateTimePicker_ReactPackageProvider,
       REACT_REGISTER_NATIVE_MODULE_PACKAGES] @ [InitializeComponent]"
  using InitializeComponent_once_and_last [of True False "[]" App_base]
  by (simp add: App_body_def)

text \<open>
  C7. In every run of the constructor, under every setting of the build flags, the
  generated registration step \<^verbatim>\<open>REACT_REGISTER_NATIVE_MODULE_PACKAGES()\<close> is called
  exactly once and takes no argument (the call has none). The body is a prefix, that
  call, and a rest: both provider appends are in the prefix and have taken effect on
  the object the step receives, and the rest is the call of
  \<^verbatim>\<open>InitializeComponent\<close> alone. The object the constructor returns is the result of
  running the prefix, then the registration step, then the rest.
\<close>

theorem registration_once_between_appends_and_init:
  "count_list (App_body BUNDLE DEBUG) REACT_REGISTER_NATIVE_MODULE_PACKAGES = 1
   \<and> (\<exists>pre post. App_body BUNDLE DEBUG = pre @ REACT_REGISTER_NATIVE_MODULE_PACKAGES # post
        \<and> filter is_append pre =
            [PackageProviders_Append ReactPackageProvider,
             PackageProviders_Append DateTimePicker_ReactPackageProvider]
        \<and> filter is_append post = []
        \<and> post = [InitializeComponent]
        \<and> PackageProviders (run autolinked pre a) =
            PackageProviders a @ [ReactPackageProvider, DateTimePicker_ReactPackageProvider]
        \<and> App_ctor autolinked BUNDLE DEBUG a =
            exec autolinked InitializeComponent
              (exec autolinked REACT_REGISTER_NATIVE_MODULE_PACKAGES (run autolinked pre a)))"
proof
  show "count_list (App_body BUNDLE DEBUG) REACT_REGISTER_NATIVE_MODULE_PACKAGES = 1"
    by (simp add: App_body_def)
next
  let ?pre = "take 7 (App_body BUNDLE DEBUG)"
  have body: "App_body BUNDLE DEBUG =
      ?pre @ REACT_REGISTER_NATIVE_MODULE_PACKAGES # [InitializeComponent]"
    by (simp add: App_body_def)
  have ctor: "App_ctor autolinked BUNDLE DEBUG a =
      exec autolinked InitializeComponent
        (exec autolinked REACT_REGISTER_NATIVE_MODULE_PACKAGES (run autolinked ?pre a))"
    unfolding App_ctor_def by (subst body) (simp only: run_append run.simps)
  have "filter is_append ?pre =
      [PackageProviders_Append ReactPackageProvider,
       PackageProviders_Append DateTimePicker_ReactPackageProvider]"
    by (simp add: App_body_def)
  moreover have "filter is_append [InitializeComponent] = []"
    by simp
  moreover have "PackageProviders (run autolinked ?pre a) =
      PackageProviders a @ [ReactPackageProvider, DateTimePicker_ReactPackageProvider]"
    by (simp add: App_body_def)
  ultimately show "\<exists>pre post.
      App_body BUNDLE DEBUG = pre @ REACT_REGISTER_NATIVE_MODULE_PACKAGES # post
        \<and> filter is_append pre =
            [PackageProviders_Append ReactPackageProvider,
             PackageProviders_Append DateTimePicker_ReactPackageProvider]
        \<and> filter is_append post = []
        \<and> post = [InitializeComponent]
        \<and> PackageProviders (run autolinked pre a) =
            PackageProviders a @ [ReactPackageProvider, DateTimePicker_ReactPackageProvider]
        \<and> App_ctor autolinked BUNDLE DEBUG a =
            exec autolinked InitializeComponent
              (exec autolinked REACT_REGISTER_NATIVE_MODULE_PACKAGES (run autolinked pre a))"
    using body ctor by blast
qed

subsection \<open>Determinism\<close>

text \<open>
  C8. The configuration the constructor produces is a function of the two build
  selectors alone. Take two runs on freshly constructed objects (no bundle source
  set, no provider registered; the properties the constructor overwrites may hold
  anything). With the generated registration step finding no further package, each
  run ends in the configuration \<open>configuration_table BUNDLE DEBUG\<close>: entry point,
  bundle file, main module name, the three flags and the ordered providers are read
  off the two selectors. And whatever that step registers, the same in both runs of
  one build, the two runs end in the same configuration.
\<close>

theorem ctor_deterministic:
  assumes "JavaScriptBundleFile a1 = ''''"
    and "JavaScriptMainModuleName a1 = ''''"
    and "PackageProviders a1 = []"
    and "JavaScriptBundleFile a2 = ''''"
    and "JavaScriptMainModuleName a2 = ''''"
    and "PackageProviders a2 = []"
  shows "config_of (App_ctor [] BUNDLE DEBUG a1) = configuration_table BUNDLE DEBUG
     \<and> config_of (App_ctor [] BUNDLE DEBUG a2) = configuration_table BUNDLE DEBUG
     \<and> config_of (App_ctor autolinked BUNDLE DEBUG a1) =
         config_of (App_ctor autolinked BUNDLE DEBUG a2)"
  using assms
  by (simp add: config_of_def configuration_table_def App_ctor_def App_body_def
      register_native_module_packages_def initialize_component_def)

theorem ctor_deterministic_witness:
  "config_of (App_ctor [] True False App_base) =
     (''example'', ''index.windows'', '''', False, False, False,
      [ReactPackageProvider, DateTimePicker_ReactPackageProvider])
   \<and> config_of (App_ctor [] True False
        (App_base\<lparr>MainComponentName := ''other'',
                  InstanceSettings := \<lparr> UseWebDebugger = True, UseFastRefresh = False,
                                        EnableDeveloperMenu = True \<rparr>\<rparr>)) =
     (''example'', ''index.windows'', '''', False, False, False,
      [ReactPackageProvider, DateTimePicker_ReactPackageProvider])"
proof -
  let ?a2 = "App_base\<lparr>MainComponentName := ''other'',
                InstanceSettings := \<lparr> UseWebDebugger = True, UseFastRefresh = False,
                                      EnableDeveloperMenu = True \<rparr>\<rparr>"
  have b1: "JavaScriptBundleFile App_base = ''''" by (simp add: App_base_def)
  have m1: "JavaScriptMainModuleName App_base = ''''" by (simp add: App_base_def)
  have p1: "PackageProviders App_base = []" by (simp add: App_base_def)
  have b2: "JavaScriptBundleFile ?a2 = ''''" by (simp add: App_base_def)
  have m2: "JavaScriptMainModuleName ?a2 = ''''" by (simp add: App_base_def)
  have p2: "PackageProviders ?a2 = []" by (simp add: App_base_def)
  from ctor_deterministic [OF b1 m1 p1 b2 m2 p2, of True False "[]"]
  show ?thesis by (simp add: configuration_table_def)
qed

subsection \<open>Frame of the configuration writes\<close>







end
